theory Spec2Isabelle
  imports Complex_Main
begin

section \<open>LLA to ECEF conversion, velocity estimation and interpolation queries\<close>

text \<open>
  A shallow embedding of \<^verbatim>\<open>scitech_lab.py\<close>: the functions \<^verbatim>\<open>load_data\<close>,
  \<^verbatim>\<open>lla_to_ecef\<close>, \<^verbatim>\<open>cal_ecef_velocity\<close> (with its inner \<^verbatim>\<open>calc_velocity\<close>),
  \<^verbatim>\<open>interpolate_src_velocity\<close> and \<^verbatim>\<open>interpolate_new_velocity\<close>.

  Arithmetic. The program computes on IEEE double precision numbers (numpy \<^verbatim>\<open>float64\<close>).
  They are modelled by the type \<open>fl\<close>: a finite value carries a real number and is
  computed with exactly (no rounding, no overflow), and the three special values
  \<open>PInf\<close>, \<open>NInf\<close> and \<open>NaN\<close> follow the IEEE rules that numpy applies: a division by
  zero is not an exception, it yields an infinity or a NaN, which then propagates.
  What rounding does is outside this model. A statement that the program applies given
  operations in a given order, or that a value is an infinity or a NaN, does not depend on
  it; an equation between the results of two different computations does, and holds on
  doubles only approximately.
\<close>

subsection \<open>Numbers\<close>

datatype fl = Fin real | PInf | NInf | NaN

fun is_finite :: "fl \<Rightarrow> bool" where
  "is_finite (Fin x) = True"
| "is_finite PInf = False"
| "is_finite NInf = False"
| "is_finite NaN = False"

text \<open>The sign bit of a number that is not a NaN (zero counts as positive).\<close>

fun is_neg :: "fl \<Rightarrow> bool" where
  "is_neg (Fin x) = (x < 0)"
| "is_neg PInf = False"
| "is_neg NInf = True"
| "is_neg NaN = False"

fun fl_neg :: "fl \<Rightarrow> fl" where
  "fl_neg (Fin x) = Fin (- x)"
| "fl_neg PInf = NInf"
| "fl_neg NInf = PInf"
| "fl_neg NaN = NaN"

fun fl_add :: "fl \<Rightarrow> fl \<Rightarrow> fl" where
  "fl_add NaN b = NaN"
| "fl_add a NaN = NaN"
| "fl_add (Fin x) (Fin y) = Fin (x + y)"
| "fl_add PInf NInf = NaN"
| "fl_add NInf PInf = NaN"
| "fl_add PInf b = PInf"
| "fl_add NInf b = NInf"
| "fl_add (Fin x) b = b"

definition fl_sub :: "fl \<Rightarrow> fl \<Rightarrow> fl" where
  "fl_sub a b = fl_add a (fl_neg b)"

fun fl_mul :: "fl \<Rightarrow> fl \<Rightarrow> fl" where
  "fl_mul NaN b = NaN"
| "fl_mul a NaN = NaN"
| "fl_mul (Fin x) (Fin y) = Fin (x * y)"
| "fl_mul a b =
     (if a = Fin 0 \<or> b = Fin 0 then NaN
      else if is_neg a = is_neg b then PInf else NInf)"

text \<open>
  Division of numpy scalars: \<open>x / 0\<close> is an infinity with the sign of \<open>x\<close> for
  \<open>x \<noteq> 0\<close> and NaN for \<open>x = 0\<close> (numpy warns, it does not raise); the zero divisor
  that arises here, a difference of two equal numbers, is the positive zero.
\<close>

fun fl_div :: "fl \<Rightarrow> fl \<Rightarrow> fl" where
  "fl_div NaN b = NaN"
| "fl_div a NaN = NaN"
| "fl_div (Fin x) (Fin y) =
     (if y = 0 then (if x = 0 then NaN else if 0 < x then PInf else NInf)
      else Fin (x / y))"
| "fl_div (Fin x) b = Fin 0"
| "fl_div a (Fin y) = (if is_neg a = (y < 0) then PInf else NInf)"
| "fl_div a b = NaN"

text \<open>\<^verbatim>\<open>x**2\<close>\<close>

definition fl_sq :: "fl \<Rightarrow> fl" where
  "fl_sq a = fl_mul a a"

text \<open>\<^verbatim>\<open>np.sqrt\<close>, \<^verbatim>\<open>np.sin\<close>, \<^verbatim>\<open>np.cos\<close>\<close>

fun fl_sqrt :: "fl \<Rightarrow> fl" where
  "fl_sqrt (Fin x) = (if x < 0 then NaN else Fin (sqrt x))"
| "fl_sqrt PInf = PInf"
| "fl_sqrt NInf = NaN"
| "fl_sqrt NaN = NaN"

fun fl_sin :: "fl \<Rightarrow> fl" where
  "fl_sin (Fin x) = Fin (sin x)"
| "fl_sin a = NaN"

fun fl_cos :: "fl \<Rightarrow> fl" where
  "fl_cos (Fin x) = Fin (cos x)"
| "fl_cos a = NaN"

text \<open>Comparisons: every comparison with a NaN is false.\<close>

fun fl_less :: "fl \<Rightarrow> fl \<Rightarrow> bool" where
  "fl_less NaN b = False"
| "fl_less a NaN = False"
| "fl_less (Fin x) (Fin y) = (x < y)"
| "fl_less a PInf = (a \<noteq> PInf)"
| "fl_less NInf b = (b \<noteq> NInf)"
| "fl_less a b = False"

fun fl_le :: "fl \<Rightarrow> fl \<Rightarrow> bool" where
  "fl_le NaN b = False"
| "fl_le a NaN = False"
| "fl_le a b = (a = b \<or> fl_less a b)"

subsection \<open>Series and arrays\<close>

text \<open>
  A pandas \<^verbatim>\<open>Series\<close> of numbers under the default index \<open>0, 1, \<dots>, n - 1\<close> (what
  \<^verbatim>\<open>read_csv\<close> gives a column), and a one-dimensional numpy array: the list of the
  values.
\<close>

type_synonym series = "fl list"

type_synonym ndarray = "fl list"

text \<open>
  A binary operation of two series aligns them on the index: the result has the union of
  both indexes, and a label that one operand lacks gets NaN.
\<close>

fun series_binop :: "(fl \<Rightarrow> fl \<Rightarrow> fl) \<Rightarrow> series \<Rightarrow> series \<Rightarrow> series" where
  "series_binop f (x # xs) (y # ys) = f x y # series_binop f xs ys"
| "series_binop f [] ys = map (\<lambda>y. NaN) ys"
| "series_binop f xs [] = map (\<lambda>x. NaN) xs"

subsection \<open>\<^verbatim>\<open>lla_to_ecef\<close>\<close>

text \<open>The WGS84 semi-axes, the locals \<^verbatim>\<open>A\<close> and \<^verbatim>\<open>B\<close> of \<^verbatim>\<open>lla_to_ecef\<close>.\<close>

definition wgs84_A :: real where
  "wgs84_A = 6378137"

definition wgs84_B :: real where
  "wgs84_B = 6356752.31424518"

text \<open>\<^verbatim>\<open>E1 = np.sqrt((A**2-B**2)/A**2)\<close> and \<^verbatim>\<open>E2 = E1**2\<close>.\<close>

definition ecc_E1 :: fl where
  "ecc_E1 =
     fl_sqrt (fl_div (fl_sub (fl_sq (Fin wgs84_A)) (fl_sq (Fin wgs84_B))) (fl_sq (Fin wgs84_A)))"

definition ecc_E2 :: fl where
  "ecc_E2 = fl_sq ecc_E1"

definition lla_to_ecef :: "series \<Rightarrow> series \<Rightarrow> series \<Rightarrow> series \<times> series \<times> series" where
  "lla_to_ecef lat0 lon0 alt0 =
     (let deg_2_rads = Fin (pi / 180);
          lat = map (fl_mul deg_2_rads) lat0;
          lon = map (fl_mul deg_2_rads) lon0;
          alt = map (fl_mul (Fin 1000)) alt0;
          cos_lat = map fl_cos lat;
          cos_lon = map fl_cos lon;
          sin_lat = map fl_sin lat;
          H = alt;
          N = map (\<lambda>s. fl_div (Fin wgs84_A)
                       (fl_sqrt (fl_sub (Fin 1) (fl_mul ecc_E2 (fl_sq s))))) sin_lat;
          X = series_binop fl_mul (series_binop fl_mul (series_binop fl_add N H) cos_lat) cos_lon;
          Y = series_binop fl_mul (series_binop fl_mul (series_binop fl_add N H) cos_lat)
                (map fl_sin lon);
          Z = series_binop fl_mul
                (series_binop fl_add (map (\<lambda>n. fl_mul n (fl_sub (Fin 1) ecc_E2)) N) H) sin_lat
      in (X, Y, Z))"

text \<open>
  The conversion as the specification words it, over the real numbers, for one sample:
  latitude and longitude in degrees, altitude in kilometres.
\<close>

definition ecef_formula :: "real \<Rightarrow> real \<Rightarrow> real \<Rightarrow> real \<times> real \<times> real" where
  "ecef_formula lat_deg lon_deg alt_km =
     (let lat = lat_deg * pi / 180;
          lon = lon_deg * pi / 180;
          H = 1000 * alt_km;
          A = 6378137;
          B = 6356752.31424518;
          E2 = (A\<^sup>2 - B\<^sup>2) / A\<^sup>2;
          N = A / sqrt (1 - E2 * (sin lat)\<^sup>2)
      in ((N + H) * cos lat * cos lon, (N + H) * cos lat * sin lon, (N * (1 - E2) + H) * sin lat))"

definition fin3 :: "real \<times> real \<times> real \<Rightarrow> fl \<times> fl \<times> fl" where
  "fin3 p = (case p of (x, y, z) \<Rightarrow> (Fin x, Fin y, Fin z))"

text \<open>The squared first eccentricity of the ellipsoid, as a real number.\<close>

definition ecc_sq :: real where
  "ecc_sq = (wgs84_A\<^sup>2 - wgs84_B\<^sup>2) / wgs84_A\<^sup>2"

subsection \<open>Errors\<close>

text \<open>
  The exceptions that can leave the functions: those of \<^verbatim>\<open>pd.read_csv\<close> (a missing file,
  text that does not parse), a column that the table lacks (\<^verbatim>\<open>df.latitude\<close>), a label
  that a series lacks (\<^verbatim>\<open>time[i]\<close>), numpy arrays whose shapes do not broadcast or
  series that the interpolation library rejects, and the out-of-range query of the
  interpolation library, which the specification names \<open>DomainError\<close>.
\<close>

datatype error =
    FileNotFoundError
  | ParserError
  | AttributeError string
  | KeyError nat
  | ValueError
  | DomainError

subsection \<open>\<^verbatim>\<open>cal_ecef_velocity\<close>\<close>

text \<open>
  The loop of the inner function \<^verbatim>\<open>calc_velocity\<close>, from index \<open>i\<close> on:
  \<^verbatim>\<open>for i in range(1,len(position)): v[i] = (position[i]-position[i-1])/(time[i]-time[i-1])\<close>.
  The index runs below \<open>len(position)\<close>, so \<^verbatim>\<open>position[i]\<close> is always there;
  \<^verbatim>\<open>time[i]\<close> raises \<open>KeyError\<close> when the time series is shorter.
\<close>

function calc_velocity_loop :: "series \<Rightarrow> series \<Rightarrow> nat \<Rightarrow> ndarray \<Rightarrow> error + ndarray" where
  "calc_velocity_loop time position i v =
     (if i < length position then
        (if i < length time then
           calc_velocity_loop time position (Suc i)
             (v[i := fl_div (fl_sub (position ! i) (position ! (i - 1)))
                            (fl_sub (time ! i) (time ! (i - 1)))])
         else Inl (KeyError i))
      else Inr v)"
  by pat_completeness auto
termination
  by (relation "measure (\<lambda>(time, position, i, v). length position - i)") auto

declare calc_velocity_loop.simps [simp del]

definition calc_velocity :: "series \<Rightarrow> series \<Rightarrow> error + ndarray" where
  "calc_velocity time position =
     (let n = length position;
          v = replicate n (Fin 0)
      in calc_velocity_loop time position 1 v)"

text \<open>
  An elementwise operation of two one-dimensional numpy arrays: equal lengths, or one
  of them of length one (broadcast); any other pair of shapes raises \<open>ValueError\<close>.
\<close>

definition np_binop :: "(fl \<Rightarrow> fl \<Rightarrow> fl) \<Rightarrow> ndarray \<Rightarrow> ndarray \<Rightarrow> error + ndarray" where
  "np_binop f a b =
     (if length a = length b then Inr (map2 f a b)
      else if length a = 1 then Inr (map (f (hd a)) b)
      else if length b = 1 then Inr (map (\<lambda>x. f x (hd b)) a)
      else Inl ValueError)"

definition cal_ecef_velocity :: "series \<Rightarrow> series \<Rightarrow> series \<Rightarrow> series \<Rightarrow> error + ndarray" where
  "cal_ecef_velocity t x y z =
     (case calc_velocity t x of Inl e \<Rightarrow> Inl e | Inr vx \<Rightarrow>
     (case calc_velocity t y of Inl e \<Rightarrow> Inl e | Inr vy \<Rightarrow>
     (case calc_velocity t z of Inl e \<Rightarrow> Inl e | Inr vz \<Rightarrow>
     (case np_binop fl_add (map fl_sq vx) (map fl_sq vy) of Inl e \<Rightarrow> Inl e | Inr s \<Rightarrow>
     (case np_binop fl_add s (map fl_sq vz) of Inl e \<Rightarrow> Inl e | Inr s' \<Rightarrow>
      Inr (map fl_sqrt s'))))))"

text \<open>
  The speed at an index \<open>i \<ge> 1\<close> as the specification words it: the Euclidean norm of
  the three backward differences.
\<close>

definition backward_difference :: "series \<Rightarrow> series \<Rightarrow> nat \<Rightarrow> fl" where
  "backward_difference time component i =
     fl_div (fl_sub (component ! i) (component ! (i - 1))) (fl_sub (time ! i) (time ! (i - 1)))"

definition speed_at :: "series \<Rightarrow> series \<Rightarrow> series \<Rightarrow> series \<Rightarrow> nat \<Rightarrow> fl" where
  "speed_at t x y z i =
     fl_sqrt (fl_add (fl_add (fl_sq (backward_difference t x i)) (fl_sq (backward_difference t y i)))
                     (fl_sq (backward_difference t z i)))"

subsection \<open>The outside world\<close>

text \<open>
  A table read from a file: its numeric columns by name. The world the program runs in:
  what \<^verbatim>\<open>pd.read_csv\<close> returns or raises for each path, the content of the log file
  \<^verbatim>\<open>stdout.txt\<close> (\<open>None\<close> while the file does not exist), and the characters printed to
  standard output so far.
\<close>

type_synonym dataframe = "string \<rightharpoonup> series"

record world =
  csv_files :: "string \<Rightarrow> error + dataframe"
  stdout_txt :: "string option"
  console :: string

text \<open>
  The values a call can return, and the numbers a caller passes as \<^verbatim>\<open>time_request\<close>: a
  Python \<^verbatim>\<open>int\<close> or \<^verbatim>\<open>float\<close>. Python's \<^verbatim>\<open>str\<close> of a number is a parameter \<open>str\<close> of the
  functions that format one.
\<close>

datatype pynum = PyInt int | PyFloat fl

datatype pyval = PyNone | PyNum pynum | PyStr string

fun num_val :: "pynum \<Rightarrow> fl" where
  "num_val (PyInt n) = Fin (of_int n)"
| "num_val (PyFloat x) = x"

subsection \<open>\<^verbatim>\<open>load_data\<close>\<close>

definition load_data :: "world \<Rightarrow> string \<Rightarrow> error + dataframe" where
  "load_data w filename = csv_files w filename"

text \<open>The attribute access \<^verbatim>\<open>df.latitude\<close>: the column, or \<open>AttributeError\<close>.\<close>

definition column :: "dataframe \<Rightarrow> string \<Rightarrow> error + series" where
  "column df name = (case df name of None \<Rightarrow> Inl (AttributeError name) | Some s \<Rightarrow> Inr s)"

subsection \<open>Files and the console\<close>

text \<open>\<^verbatim>\<open>file = open('stdout.txt', 'a'); file.write(output); file.close()\<close>\<close>

definition append_log :: "string \<Rightarrow> world \<Rightarrow> world" where
  "append_log output w =
     w\<lparr>stdout_txt := Some (case stdout_txt w of None \<Rightarrow> output | Some old \<Rightarrow> old @ output)\<rparr>"

text \<open>\<^verbatim>\<open>print(output)\<close> writes the string and a line end, and returns \<open>None\<close>.\<close>

definition py_print :: "string \<Rightarrow> world \<Rightarrow> pyval \<times> world" where
  "py_print output w = (PyNone, w\<lparr>console := console w @ output @ ''\<newline>''\<rparr>)"

subsection \<open>The interpolant\<close>

text \<open>
  Modelled from the spec: \<^verbatim>\<open>scipy.interpolate.interp1d\<close>, the interpolation library the
  program calls, is not part of the repository. The specification describes it as a
  piecewise-linear interpolant over the (time, speed) breakpoints, valid for query
  times within \<open>[min(time), max(time)]\<close> inclusive, with no extrapolation: a query outside
  this range fails with \<open>DomainError\<close>. The specification is silent on series of different
  lengths; the library rejects them, here with \<open>ValueError\<close>.
\<close>

definition out_of_bounds :: "series \<Rightarrow> fl \<Rightarrow> bool" where
  "out_of_bounds time t \<longleftrightarrow>
     list_all (\<lambda>a. fl_less t a) time \<or> list_all (\<lambda>a. fl_less a t) time"

fun interp_linear :: "(fl \<times> fl) list \<Rightarrow> fl \<Rightarrow> fl" where
  "interp_linear [] t = NaN"
| "interp_linear [(t0, y0)] t = y0"
| "interp_linear ((t0, y0) # (t1, y1) # bps) t =
     (if fl_le t t1
      then fl_add y0 (fl_mul (fl_div (fl_sub y1 y0) (fl_sub t1 t0)) (fl_sub t t0))
      else interp_linear ((t1, y1) # bps) t)"

definition interp1d :: "series \<Rightarrow> ndarray \<Rightarrow> fl \<Rightarrow> error + fl" where
  "interp1d time velocity t =
     (if length time \<noteq> length velocity then Inl ValueError
      else if out_of_bounds time t then Inl DomainError
      else Inr (interp_linear (zip time velocity) t))"

subsection \<open>\<^verbatim>\<open>interpolate_src_velocity\<close> and \<^verbatim>\<open>interpolate_new_velocity\<close>\<close>

text \<open>
  A call takes the world and returns what it returned or raised, with the world it left.
  The interpolant is built and evaluated before the log file is opened.
\<close>

definition interpolate_src_velocity ::
  "(pynum \<Rightarrow> string) \<Rightarrow> series \<Rightarrow> ndarray \<Rightarrow> pynum \<Rightarrow> world \<Rightarrow> (error + pyval) \<times> world" where
  "interpolate_src_velocity str time velocity time_request w =
     (case interp1d time velocity (num_val time_request) of
        Inl e \<Rightarrow> (Inl e, w)
      | Inr v \<Rightarrow>
          (let output = ''\<newline>Velocity(time='' @ str time_request @ ''seconds) = ''
                          @ str (PyFloat v) @ '' m/s\<newline>'';
               w1 = append_log output w;
               (r, w2) = py_print output w1
           in (Inr r, w2)))"

definition interpolate_new_velocity ::
  "(pynum \<Rightarrow> string) \<Rightarrow> string \<Rightarrow> pynum \<Rightarrow> world \<Rightarrow> (error + pyval) \<times> world" where
  "interpolate_new_velocity str filename time_request w =
     (case load_data w filename of Inl e \<Rightarrow> (Inl e, w) | Inr df \<Rightarrow>
     (case column df ''latitude'' of Inl e \<Rightarrow> (Inl e, w) | Inr lat \<Rightarrow>
     (case column df ''longitude'' of Inl e \<Rightarrow> (Inl e, w) | Inr lon \<Rightarrow>
     (case column df ''altitude'' of Inl e \<Rightarrow> (Inl e, w) | Inr alt \<Rightarrow>
     (case lla_to_ecef lat lon alt of (X, Y, Z) \<Rightarrow>
     (case column df ''time'' of Inl e \<Rightarrow> (Inl e, w) | Inr t \<Rightarrow>
     (case cal_ecef_velocity t X Y Z of Inl e \<Rightarrow> (Inl e, w) | Inr V \<Rightarrow>
     (case interp1d t V (num_val time_request) of
        Inl e \<Rightarrow> (Inl e, w)
      | Inr v \<Rightarrow>
          (let output = ''\<newline>Velocity(time='' @ str time_request @ ''seconds) = ''
                          @ str (PyFloat v) @ '' m/s\<newline>'';
               w1 = append_log output w;
               (r, w2) = py_print output w1
           in (Inr r, w2))))))))))"

text \<open>
  The other route to the same query: the loader, the converter and the estimator run
  on the file one after the other, then \<^verbatim>\<open>interpolate_src_velocity\<close> is called with the
  time column and the speeds.
\<close>

definition load_convert_estimate :: "world \<Rightarrow> string \<Rightarrow> error + series \<times> ndarray" where
  "load_convert_estimate w filename =
     (case load_data w filename of Inl e \<Rightarrow> Inl e | Inr df \<Rightarrow>
     (case column df ''latitude'' of Inl e \<Rightarrow> Inl e | Inr lat \<Rightarrow>
     (case column df ''longitude'' of Inl e \<Rightarrow> Inl e | Inr lon \<Rightarrow>
     (case column df ''altitude'' of Inl e \<Rightarrow> Inl e | Inr alt \<Rightarrow>
     (case lla_to_ecef lat lon alt of (X, Y, Z) \<Rightarrow>
     (case column df ''time'' of Inl e \<Rightarrow> Inl e | Inr t \<Rightarrow>
     (case cal_ecef_velocity t X Y Z of Inl e \<Rightarrow> Inl e | Inr V \<Rightarrow> Inr (t, V))))))))"

definition interpolate_via_series ::
  "(pynum \<Rightarrow> string) \<Rightarrow> string \<Rightarrow> pynum \<Rightarrow> world \<Rightarrow> (error + pyval) \<times> world" where
  "interpolate_via_series str filename time_request w =
     (case load_convert_estimate w filename of
        Inl e \<Rightarrow> (Inl e, w)
      | Inr (t, V) \<Rightarrow> interpolate_src_velocity str t V time_request w)"

text \<open>The block that one successful query appends to the log file.\<close>

definition report_block :: "(pynum \<Rightarrow> string) \<Rightarrow> pynum \<Rightarrow> fl \<Rightarrow> string" where
  "report_block str time_request v =
     ''\<newline>Velocity(time='' @ str time_request @ ''seconds) = '' @ str (PyFloat v) @ '' m/s\<newline>''"

subsection \<open>Sample inputs\<close>

text \<open>
  Concrete inputs for the examples below: Python's \<^verbatim>\<open>str\<close> on the numbers they use, a
  world with no file at all, and a world whose file \<^verbatim>\<open>track.csv\<close> parses to a table with
  the single column \<^verbatim>\<open>time\<close>.
\<close>

definition str_sample :: "pynum \<Rightarrow> string" where
  "str_sample v =
     (if v = PyInt 5 then ''5''
      else if v = PyInt 11 then ''11''
      else if v = PyFloat (Fin 2.5) then ''2.5''
      else ''?'')"

definition no_files_world :: world where
  "no_files_world =
     \<lparr>csv_files = (\<lambda>p. Inl FileNotFoundError), stdout_txt = None, console = []\<rparr>"

definition time_only_table :: dataframe where
  "time_only_table = [''time'' \<mapsto> [Fin 1, Fin 2]]"

definition time_only_world :: world where
  "time_only_world =
     \<lparr>csv_files = (\<lambda>p. if p = ''track.csv'' then Inr time_only_table else Inl FileNotFoundError),
      stdout_txt = None, console = []\<rparr>"

text \<open>The content of the log file, empty while the file does not exist.\<close>

definition log_text :: "world \<Rightarrow> string" where
  "log_text w = (case stdout_txt w of None \<Rightarrow> [] | Some old \<Rightarrow> old)"


section \<open>Properties\<close>

subsection \<open>The ellipsoid\<close>

lemma wgs84_B_pos: "0 < wgs84_B"
  by (simp add: wgs84_B_def)

lemma wgs84_B_less_A: "wgs84_B < wgs84_A"
  by (simp add: wgs84_A_def wgs84_B_def)

lemma wgs84_A_pos: "0 < wgs84_A"
  by (simp add: wgs84_A_def)

lemma ecc_sq_nonneg: "0 \<le> ecc_sq"
proof -
  have "wgs84_B\<^sup>2 \<le> wgs84_A\<^sup>2"
    using wgs84_B_pos wgs84_B_less_A by (simp add: power_mono)
  then show ?thesis
    by (simp add: ecc_sq_def)
qed

lemma one_minus_ecc_sq: "1 - ecc_sq = (wgs84_B / wgs84_A)\<^sup>2"
  using wgs84_A_pos by (simp add: ecc_sq_def field_simps)

lemma ecc_sq_less_1: "ecc_sq < 1"
proof -
  have "0 < (wgs84_B / wgs84_A)\<^sup>2"
    using wgs84_A_pos wgs84_B_pos by simp
  then show ?thesis
    using one_minus_ecc_sq by linarith
qed

lemma ecc_E2_eq: "ecc_E2 = Fin ecc_sq"
proof -
  have "fl_div (fl_sub (fl_sq (Fin wgs84_A)) (fl_sq (Fin wgs84_B))) (fl_sq (Fin wgs84_A))
        = Fin ecc_sq"
    using wgs84_A_pos by (simp add: fl_sq_def fl_sub_def ecc_sq_def power2_eq_square)
  then have e1: "ecc_E1 = Fin (sqrt ecc_sq)"
    using ecc_sq_nonneg by (simp add: ecc_E1_def)
  show ?thesis
    unfolding ecc_E2_def fl_sq_def e1 using ecc_sq_nonneg by simp
qed

lemma radicand_pos: "0 < 1 - ecc_sq * (sin x)\<^sup>2"
proof -
  have "(sin x)\<^sup>2 \<le> 1"
    by (simp add: abs_square_le_1)
  then have "ecc_sq * (sin x)\<^sup>2 \<le> ecc_sq * 1"
    using ecc_sq_nonneg by (intro mult_left_mono) auto
  then show ?thesis
    using ecc_sq_less_1 by linarith
qed

lemma series_binop_eq_map2:
  "length xs = length ys \<Longrightarrow> series_binop f xs ys = map2 f xs ys"
  by (induction f xs ys rule: series_binop.induct) auto

lemma length_series_binop:
  "length (series_binop f xs ys) = max (length xs) (length ys)"
  by (induction f xs ys rule: series_binop.induct) auto

lemma nth_series_binop:
  "i < length xs \<Longrightarrow> i < length ys \<Longrightarrow> series_binop f xs ys ! i = f (xs ! i) (ys ! i)"
proof (induction f xs ys arbitrary: i rule: series_binop.induct)
  case (1 f x xs y ys)
  then show ?case by (cases i) auto
qed auto

subsection \<open>The converter in exact arithmetic\<close>

lemma ecef_formula_eq:
  "ecef_formula la lo al =
     (let lat = la * pi / 180; lon = lo * pi / 180; H = 1000 * al;
          N = wgs84_A / sqrt (1 - ecc_sq * (sin lat)\<^sup>2)
      in ((N + H) * cos lat * cos lon, (N + H) * cos lat * sin lon,
          (N * (1 - ecc_sq) + H) * sin lat))"
  by (simp add: ecef_formula_def Let_def wgs84_A_def wgs84_B_def ecc_sq_def)

lemma lla_to_ecef_lengths:
  assumes "length lat = n" "length lon = n" "length alt = n"
  shows "length (fst (lla_to_ecef lat lon alt)) = n"
    and "length (fst (snd (lla_to_ecef lat lon alt))) = n"
    and "length (snd (snd (lla_to_ecef lat lon alt))) = n"
  using assms by (simp_all add: lla_to_ecef_def Let_def length_series_binop)

lemma prime_vertical_fin:
  "fl_div (Fin wgs84_A) (fl_sqrt (fl_sub (Fin 1) (fl_mul ecc_E2 (fl_sq (Fin s)))))
   = Fin (wgs84_A / sqrt (1 - ecc_sq * s\<^sup>2))" if "s = sin x"
proof -
  have pos: "0 < 1 - ecc_sq * s\<^sup>2"
    using radicand_pos [of x] that by simp
  then have "sqrt (1 - ecc_sq * s\<^sup>2) \<noteq> 0"
    by simp
  with pos show ?thesis
    by (simp add: ecc_E2_eq fl_sq_def fl_sub_def power2_eq_square)
qed

lemma one_minus_E2: "fl_sub (Fin 1) ecc_E2 = Fin (1 - ecc_sq)"
  by (simp add: ecc_E2_eq fl_sub_def)

lemma lla_to_ecef_nth:
  assumes len: "length lat = n" "length lon = n" "length alt = n"
    and i: "i < n"
    and fin: "lat ! i = Fin la" "lon ! i = Fin lo" "alt ! i = Fin al"
  shows "fst (lla_to_ecef lat lon alt) ! i = Fin (fst (ecef_formula la lo al))"
    and "fst (snd (lla_to_ecef lat lon alt)) ! i = Fin (fst (snd (ecef_formula la lo al)))"
    and "snd (snd (lla_to_ecef lat lon alt)) ! i = Fin (snd (snd (ecef_formula la lo al)))"
proof -
  let ?s = "sin (pi * la / 180)"
  have N: "fl_div (Fin wgs84_A) (fl_sqrt (fl_sub (Fin 1) (fl_mul ecc_E2 (fl_sq (Fin ?s)))))
           = Fin (wgs84_A / sqrt (1 - ecc_sq * ?s\<^sup>2))"
    by (rule prime_vertical_fin) simp
  show "fst (lla_to_ecef lat lon alt) ! i = Fin (fst (ecef_formula la lo al))"
    using len i fin
    by (simp add: lla_to_ecef_def Let_def nth_series_binop length_series_binop N
        ecef_formula_eq one_minus_E2 mult.commute)
  show "fst (snd (lla_to_ecef lat lon alt)) ! i = Fin (fst (snd (ecef_formula la lo al)))"
    using len i fin
    by (simp add: lla_to_ecef_def Let_def nth_series_binop length_series_binop N
        ecef_formula_eq one_minus_E2 mult.commute)
  show "snd (snd (lla_to_ecef lat lon alt)) ! i = Fin (snd (snd (ecef_formula la lo al)))"
    using len i fin
    by (simp add: lla_to_ecef_def Let_def nth_series_binop length_series_binop N
        ecef_formula_eq one_minus_E2 mult.commute)
qed

text \<open>
  Without rounding, \<^verbatim>\<open>lla_to_ecef\<close> computes the values of \<open>ecef_formula\<close> at every index
  whose three inputs are finite numbers. On doubles this equation holds only
  approximately: it rests on \<open>sqrt x * sqrt x = x\<close> and on the exact values of \<open>\<pi>\<close>, sine and
  cosine.
\<close>

lemma lla_to_ecef_exact:
  assumes "length lat = n" and "length lon = n" and "length alt = n"
  shows "\<exists>X Y Z. lla_to_ecef lat lon alt = (X, Y, Z) \<and>
           length X = n \<and> length Y = n \<and> length Z = n \<and>
           (\<forall>i<n. \<forall>la lo al. lat ! i = Fin la \<longrightarrow> lon ! i = Fin lo \<longrightarrow> alt ! i = Fin al \<longrightarrow>
              (X ! i, Y ! i, Z ! i) = fin3 (ecef_formula la lo al))"
proof -
  obtain X Y Z where r: "lla_to_ecef lat lon alt = (X, Y, Z)"
    by (cases "lla_to_ecef lat lon alt") auto
  have "length X = n" "length Y = n" "length Z = n"
    using lla_to_ecef_lengths [OF assms] r by simp_all
  moreover have "(X ! i, Y ! i, Z ! i) = fin3 (ecef_formula la lo al)"
    if "i < n" "lat ! i = Fin la" "lon ! i = Fin lo" "alt ! i = Fin al" for i la lo al
    using lla_to_ecef_nth [OF assms that] r
    by (cases "ecef_formula la lo al") (simp add: fin3_def)
  ultimately show ?thesis
    using r by blast
qed

lemma pole_radius: "wgs84_A / sqrt (1 - ecc_sq) * (1 - ecc_sq) = wgs84_B"
proof -
  have "sqrt (1 - ecc_sq) = wgs84_B / wgs84_A"
    using wgs84_A_pos wgs84_B_pos by (simp add: one_minus_ecc_sq real_sqrt_divide)
  then show ?thesis
    using wgs84_A_pos wgs84_B_pos by (simp add: one_minus_ecc_sq power2_eq_square)
qed

lemma prime_vertical_0:
  "fl_div (Fin wgs84_A) (fl_sqrt (fl_sub (Fin 1) (fl_mul ecc_E2 (fl_sq (Fin 0))))) = Fin wgs84_A"
  using prime_vertical_fin [of 0 0] by simp

lemma prime_vertical_1:
  "fl_div (Fin wgs84_A) (fl_sqrt (fl_sub (Fin 1) (fl_mul ecc_E2 (fl_sq (Fin 1)))))
   = Fin (wgs84_A / sqrt (1 - ecc_sq))"
  using prime_vertical_fin [of 1 "pi / 2"] by simp

text \<open>
  Without rounding, the equator point at longitude 0 lies at \<open>X = A\<close> and the pole at
  \<open>Z = B\<close>, the two semi-axes. On doubles the pole values are approximate: the cosine of
  the double nearest to \<open>\<pi> / 2\<close> is small but not 0.
\<close>

lemma lla_to_ecef_equator_and_pole_exact:
  "lla_to_ecef [Fin 0] [Fin 0] [Fin 0] = ([Fin 6378137], [Fin 0], [Fin 0]) \<and>
   lla_to_ecef [Fin 90] [Fin 0] [Fin 0] = ([Fin 0], [Fin 0], [Fin 6356752.31424518])"
proof
  have "lla_to_ecef [Fin 0] [Fin 0] [Fin 0] = ([Fin wgs84_A], [Fin 0], [Fin 0])"
    by (simp add: lla_to_ecef_def Let_def prime_vertical_0 one_minus_E2)
  then show "lla_to_ecef [Fin 0] [Fin 0] [Fin 0] = ([Fin 6378137], [Fin 0], [Fin 0])"
    by (simp add: wgs84_A_def)
  have "wgs84_A / sqrt (1 - ecc_sq) * (1 - ecc_sq) = 6356752.31424518"
    using pole_radius by (simp add: wgs84_B_def)
  then show "lla_to_ecef [Fin 90] [Fin 0] [Fin 0] = ([Fin 0], [Fin 0], [Fin 6356752.31424518])"
    by (simp add: lla_to_ecef_def Let_def prime_vertical_1 one_minus_E2)
qed

subsection \<open>The velocity estimator\<close>

lemma calc_velocity_loop_result:
  assumes "length position \<le> length time" and "length v = length position"
  shows "\<exists>v'. calc_velocity_loop time position i v = Inr v' \<and> length v' = length position \<and>
           (\<forall>j<i. v' ! j = v ! j) \<and>
           (\<forall>j. i \<le> j \<and> j < length position \<longrightarrow> v' ! j = backward_difference time position j)"
  using assms
proof (induction time position i v rule: calc_velocity_loop.induct)
  case (1 time position i v)
  show ?case
  proof (cases "i < length position")
    case False
    then show ?thesis
      using "1.prems" by (subst calc_velocity_loop.simps) auto
  next
    case True
    let ?d = "backward_difference time position i"
    have it: "i < length time"
      using True "1.prems" by simp
    obtain v' where r: "calc_velocity_loop time position (Suc i) (v[i := ?d]) = Inr v'"
      and len: "length v' = length position"
      and before: "\<forall>j<Suc i. v' ! j = v[i := ?d] ! j"
      and after: "\<forall>j. Suc i \<le> j \<and> j < length position \<longrightarrow> v' ! j = backward_difference time position j"
      using "1.IH" [OF True it] "1.prems" by (auto simp: backward_difference_def)
    have "calc_velocity_loop time position i v = Inr v'"
      using True it r by (subst calc_velocity_loop.simps) (simp add: backward_difference_def)
    moreover have "\<forall>j<i. v' ! j = v ! j"
      using before by (simp add: nth_list_update)
    moreover have "v' ! j = backward_difference time position j"
      if "i \<le> j \<and> j < length position" for j
    proof (cases "j = i")
      case True
      then show ?thesis
        using before that "1.prems" by (simp add: nth_list_update)
    next
      case False
      then show ?thesis
        using after that by simp
    qed
    ultimately show ?thesis
      using len by blast
  qed
qed

lemma calc_velocity_result:
  assumes "length position \<le> length time"
  shows "\<exists>v. calc_velocity time position = Inr v \<and> length v = length position \<and>
           (0 < length position \<longrightarrow> v ! 0 = Fin 0) \<and>
           (\<forall>j. 1 \<le> j \<and> j < length position \<longrightarrow> v ! j = backward_difference time position j)"
proof -
  let ?v0 = "replicate (length position) (Fin 0)"
  obtain v where r: "calc_velocity_loop time position 1 ?v0 = Inr v"
    and len: "length v = length position"
    and before: "\<forall>j<1. v ! j = ?v0 ! j"
    and after: "\<forall>j. 1 \<le> j \<and> j < length position \<longrightarrow> v ! j = backward_difference time position j"
    using calc_velocity_loop_result [OF assms, of ?v0 1] by auto
  have "calc_velocity time position = Inr v"
    using r by (simp add: calc_velocity_def)
  moreover have "0 < length position \<longrightarrow> v ! 0 = Fin 0"
    using before by simp
  ultimately show ?thesis
    using len after by blast
qed

lemma cal_ecef_velocity_result:
  assumes "length t = n" and "length x = n" and "length y = n" and "length z = n"
  shows "\<exists>speed. cal_ecef_velocity t x y z = Inr speed \<and> length speed = n \<and>
           (0 < n \<longrightarrow> speed ! 0 = Fin 0) \<and>
           (\<forall>i. 1 \<le> i \<and> i < n \<longrightarrow> speed ! i = speed_at t x y z i)"
proof -
  obtain vx where vx: "calc_velocity t x = Inr vx" "length vx = n"
      "0 < n \<longrightarrow> vx ! 0 = Fin 0"
      "\<forall>j. 1 \<le> j \<and> j < n \<longrightarrow> vx ! j = backward_difference t x j"
    using calc_velocity_result [of x t] assms by auto
  obtain vy where vy: "calc_velocity t y = Inr vy" "length vy = n"
      "0 < n \<longrightarrow> vy ! 0 = Fin 0"
      "\<forall>j. 1 \<le> j \<and> j < n \<longrightarrow> vy ! j = backward_difference t y j"
    using calc_velocity_result [of y t] assms by auto
  obtain vz where vz: "calc_velocity t z = Inr vz" "length vz = n"
      "0 < n \<longrightarrow> vz ! 0 = Fin 0"
      "\<forall>j. 1 \<le> j \<and> j < n \<longrightarrow> vz ! j = backward_difference t z j"
    using calc_velocity_result [of z t] assms by auto
  let ?s = "map fl_sqrt (map2 fl_add (map2 fl_add (map fl_sq vx) (map fl_sq vy)) (map fl_sq vz))"
  have r: "cal_ecef_velocity t x y z = Inr ?s"
    using vx(1,2) vy(1,2) vz(1,2) by (simp add: cal_ecef_velocity_def np_binop_def)
  have len: "length ?s = n"
    using vx(2) vy(2) vz(2) by simp
  have nth: "?s ! i = fl_sqrt (fl_add (fl_add (fl_sq (vx ! i)) (fl_sq (vy ! i))) (fl_sq (vz ! i)))"
    if "i < n" for i
    using that vx(2) vy(2) vz(2) by simp
  have "0 < n \<longrightarrow> ?s ! 0 = Fin 0"
    using nth [of 0] vx(3) vy(3) vz(3) by (simp add: fl_sq_def)
  moreover have "\<forall>i. 1 \<le> i \<and> i < n \<longrightarrow> ?s ! i = speed_at t x y z i"
    using nth vx(4) vy(4) vz(4) by (simp add: speed_at_def)
  ultimately show ?thesis
    using r len by blast
qed

text \<open>
  C2. For a time series and three component series, all of one length \<open>n \<ge> 1\<close>,
  \<^verbatim>\<open>cal_ecef_velocity\<close> returns a speed series of length \<open>n\<close> whose element 0 is exactly
  0, whatever the inputs are, and whose element \<open>i \<ge> 1\<close> is the square root of the sum of
  the squares of the three backward differences
  \<open>(component[i] - component[i-1]) / (time[i] - time[i-1])\<close>.
\<close>

theorem cal_ecef_velocity_speeds:
  assumes "length t = n" and "length x = n" and "length y = n" and "length z = n"
    and "1 \<le> n"
  shows "\<exists>speed. cal_ecef_velocity t x y z = Inr speed \<and> length speed = n \<and>
           speed ! 0 = Fin 0 \<and>
           (\<forall>i. 1 \<le> i \<and> i < n \<longrightarrow> speed ! i = speed_at t x y z i)"
  using cal_ecef_velocity_result [OF assms(1-4)] assms(5) by auto

lemma sqrt_25: "sqrt 25 = 5"
  by (rule real_sqrt_unique) simp_all

lemma speed_at_example:
  "speed_at [Fin 0, Fin 10] [Fin 0, Fin 30] [Fin 0, Fin 40] [Fin 0, Fin 0] 1 = Fin 5"
  by (simp add: speed_at_def backward_difference_def fl_sub_def fl_sq_def sqrt_25)

theorem cal_ecef_velocity_speeds_witness:
  "cal_ecef_velocity [Fin 0, Fin 10] [Fin 0, Fin 30] [Fin 0, Fin 40] [Fin 0, Fin 0]
   = Inr [Fin 0, Fin 5]"
proof -
  let ?t = "[Fin 0, Fin 10]" and ?x = "[Fin 0, Fin 30]"
  let ?y = "[Fin 0, Fin 40]" and ?z = "[Fin 0, Fin 0]"
  obtain speed where r: "cal_ecef_velocity ?t ?x ?y ?z = Inr speed"
    and len: "length speed = 2"
    and first: "speed ! 0 = Fin 0"
    and rest: "\<forall>i. 1 \<le> i \<and> i < 2 \<longrightarrow> speed ! i = speed_at ?t ?x ?y ?z i"
    using cal_ecef_velocity_speeds [of ?t 2 ?x ?y ?z] by auto
  obtain a b where ab: "speed = [a, b]"
    using len by (auto simp: numeral_2_eq_2 length_Suc_conv)
  have "speed ! 1 = speed_at ?t ?x ?y ?z 1"
    using rest by simp
  then have "b = Fin 5"
    using ab speed_at_example by simp
  with first ab r show ?thesis
    by simp
qed

lemma fl_sub_self: "fl_sub a a = Fin 0 \<or> fl_sub a a = NaN"
  by (cases a) (simp_all add: fl_sub_def)

lemma fl_div_zero_not_finite: "\<not> is_finite (fl_div b (Fin 0))"
  by (cases b) simp_all

lemma fl_div_NaN: "fl_div b NaN = NaN"
  by (cases b) simp_all

lemma backward_difference_equal_times:
  assumes "time ! i = time ! (i - 1)"
  shows "\<not> is_finite (backward_difference time component i)"
  using fl_sub_self [of "time ! (i - 1)"] assms
  by (auto simp: backward_difference_def fl_div_zero_not_finite fl_div_NaN)

lemma fl_sq_not_finite: "\<not> is_finite a \<Longrightarrow> fl_sq a = PInf \<or> fl_sq a = NaN"
  by (cases a) (simp_all add: fl_sq_def)

lemma speed_not_finite:
  assumes "a = PInf \<or> a = NaN" and "b = PInf \<or> b = NaN" and "c = PInf \<or> c = NaN"
  shows "fl_sqrt (fl_add (fl_add a b) c) = PInf \<or> fl_sqrt (fl_add (fl_add a b) c) = NaN"
  using assms by auto

lemma speed_at_equal_times:
  assumes "t ! i = t ! (i - 1)"
  shows "speed_at t x y z i = PInf \<or> speed_at t x y z i = NaN"
  unfolding speed_at_def
  by (intro speed_not_finite fl_sq_not_finite backward_difference_equal_times assms)

text \<open>
  C3. When two consecutive timestamps are equal, \<open>time[i] = time[i-1]\<close> for an index
  \<open>i \<ge> 1\<close>, the estimator raises no exception: it returns a speed series, and the speed
  at that index is an infinity or a NaN.
\<close>

theorem equal_timestamps_inf_or_nan:
  assumes "length t = n" and "length x = n" and "length y = n" and "length z = n"
    and "1 \<le> i" and "i < n" and "t ! i = t ! (i - 1)"
  shows "\<exists>speed. cal_ecef_velocity t x y z = Inr speed \<and> length speed = n \<and>
           (speed ! i = PInf \<or> speed ! i = NaN)"
proof -
  obtain speed where r: "cal_ecef_velocity t x y z = Inr speed" "length speed = n"
    and rest: "\<forall>i. 1 \<le> i \<and> i < n \<longrightarrow> speed ! i = speed_at t x y z i"
    using cal_ecef_velocity_result [OF assms(1-4)] by auto
  have "speed ! i = speed_at t x y z i"
    using rest assms(5,6) by simp
  then have "speed ! i = PInf \<or> speed ! i = NaN"
    using speed_at_equal_times [OF assms(7)] by simp
  with r show ?thesis
    by blast
qed

theorem equal_timestamps_inf_or_nan_witness:
  "\<exists>speed. cal_ecef_velocity [Fin 5, Fin 5] [Fin 0, Fin 30] [Fin 0, Fin 40] [Fin 0, Fin (- 5)]
             = Inr speed \<and> length speed = 2 \<and> (speed ! 1 = PInf \<or> speed ! 1 = NaN)"
  using equal_timestamps_inf_or_nan
    [of "[Fin 5, Fin 5]" 2 "[Fin 0, Fin 30]" "[Fin 0, Fin 40]" "[Fin 0, Fin (- 5)]" 1]
  by simp

subsection \<open>Interpolation queries\<close>

lemma interpolate_src_velocity_raises:
  assumes "interp1d time velocity (num_val time_request) = Inl e"
  shows "interpolate_src_velocity str time velocity time_request w = (Inl e, w)"
  using assms by (simp add: interpolate_src_velocity_def)

lemma interpolate_src_velocity_reports:
  assumes "interp1d time velocity (num_val time_request) = Inr v"
  shows "interpolate_src_velocity str time velocity time_request w =
           (Inr PyNone,
            w\<lparr>stdout_txt := Some (log_text w @ report_block str time_request v),
              console := console w @ report_block str time_request v @ ''\<newline>''\<rparr>)"
  using assms
  by (simp add: interpolate_src_velocity_def append_log_def py_print_def report_block_def
      log_text_def Let_def split: option.split)

lemma out_of_bounds_iff:
  "out_of_bounds time t \<longleftrightarrow> (\<forall>a\<in>set time. fl_less t a) \<or> (\<forall>a\<in>set time. fl_less a t)"
  by (simp add: out_of_bounds_def list_all_iff)

text \<open>
  C4. For breakpoint series of one length and a query time strictly below every
  breakpoint time or strictly above every breakpoint time (outside
  \<open>[min(time), max(time)]\<close>), \<^verbatim>\<open>interpolate_src_velocity\<close> raises \<open>DomainError\<close>, the
  error of the interpolant passed on unchanged, and leaves the world as it was: nothing
  is appended to the log file and nothing is printed.
\<close>

theorem query_outside_range_raises_without_log:
  assumes "length time = length velocity" and "time \<noteq> []"
    and "(\<forall>a\<in>set time. fl_less (num_val time_request) a) \<or>
         (\<forall>a\<in>set time. fl_less a (num_val time_request))"
  shows "interpolate_src_velocity str time velocity time_request w = (Inl DomainError, w)"
proof -
  have "interp1d time velocity (num_val time_request) = Inl DomainError"
    using assms by (simp add: interp1d_def out_of_bounds_iff)
  then show ?thesis
    by (rule interpolate_src_velocity_raises)
qed

theorem query_outside_range_raises_without_log_witness:
  "interpolate_src_velocity str_sample [Fin 0, Fin 10] [Fin 0, Fin 5] (PyInt 11) no_files_world
   = (Inl DomainError, no_files_world)"
  using query_outside_range_raises_without_log
    [of "[Fin 0, Fin 10]" "[Fin 0, Fin 5]" "PyInt 11" str_sample no_files_world]
  by simp










text \<open>
  C7. A successful query appends to the log file exactly the block
  \<^verbatim>\<open>\nVelocity(time=<time_request>seconds) = <value> m/s\n\<close>, with Python's \<^verbatim>\<open>str\<close> of the
  query time and of the interpolated speed, after the content the file already has
  (append mode), and prints the same string to standard output, where \<^verbatim>\<open>print\<close> ends
  it with a line end.
\<close>

theorem successful_query_log_and_console:
  assumes "interp1d time velocity (num_val time_request) = Inr v"
  shows "interpolate_src_velocity str time velocity time_request w =
           (Inr PyNone,
            w\<lparr>stdout_txt := Some (log_text w @
                 ''\<newline>Velocity(time='' @ str time_request @ ''seconds) = '' @ str (PyFloat v)
                   @ '' m/s\<newline>''),
              console := console w @
                 ''\<newline>Velocity(time='' @ str time_request @ ''seconds) = '' @ str (PyFloat v)
                   @ '' m/s\<newline>'' @ ''\<newline>''\<rparr>)"
  using interpolate_src_velocity_reports [OF assms, of str w]
  by (simp add: report_block_def)

lemma interp1d_sample: "interp1d [Fin 0, Fin 10] [Fin 0, Fin 5] (Fin 5) = Inr (Fin 2.5)"
  by (simp add: interp1d_def out_of_bounds_def fl_sub_def)

theorem successful_query_log_and_console_witness:
  "interpolate_src_velocity str_sample [Fin 0, Fin 10] [Fin 0, Fin 5] (PyInt 5)
       (no_files_world\<lparr>stdout_txt := Some ''old''\<rparr>) =
     (Inr PyNone,
      no_files_world\<lparr>stdout_txt := Some (''old'' @ ''\<newline>Velocity(time=5seconds) = 2.5 m/s\<newline>''),
        console := ''\<newline>Velocity(time=5seconds) = 2.5 m/s\<newline>'' @ ''\<newline>''\<rparr>)"
  using successful_query_log_and_console
    [of "[Fin 0, Fin 10]" "[Fin 0, Fin 5]" "PyInt 5" "Fin 2.5" str_sample
        "no_files_world\<lparr>stdout_txt := Some ''old''\<rparr>"]
    interp1d_sample
  by (simp add: log_text_def no_files_world_def str_sample_def)

text \<open>
  C6. For every file and query time, \<^verbatim>\<open>interpolate_new_velocity\<close> returns or raises the
  same, and leaves the same log file and console, as running the loader, the converter and
  the estimator on the file and then calling \<^verbatim>\<open>interpolate_src_velocity\<close> with the time
  column, the speeds and the same query time.
\<close>

theorem build_from_file_equals_pipeline_then_series:
  "interpolate_new_velocity str filename time_request w =
   interpolate_via_series str filename time_request w"
  by (simp add: interpolate_new_velocity_def interpolate_via_series_def
      load_convert_estimate_def interpolate_src_velocity_def
      split: sum.split prod.split)

theorem build_from_file_equals_pipeline_then_series_witness:
  "interpolate_new_velocity str_sample ''track.csv'' (PyInt 5) time_only_world =
   interpolate_via_series str_sample ''track.csv'' (PyInt 5) time_only_world"
  by (rule build_from_file_equals_pipeline_then_series)

text \<open>
  C10. Neither entry point returns the interpolated speed: a call of
  \<^verbatim>\<open>interpolate_src_velocity\<close> or \<^verbatim>\<open>interpolate_new_velocity\<close> that returns, returns
  \<open>None\<close> (the value of \<^verbatim>\<open>print\<close>); the only other outcome is an exception.
\<close>

theorem interpolation_entry_points_return_None:
  "((\<exists>e. fst (interpolate_src_velocity str time velocity time_request w) = Inl e) \<or>
    fst (interpolate_src_velocity str time velocity time_request w) = Inr PyNone) \<and>
   ((\<exists>e. fst (interpolate_new_velocity str filename time_request w) = Inl e) \<or>
    fst (interpolate_new_velocity str filename time_request w) = Inr PyNone)"
  by (simp add: interpolate_new_velocity_def interpolate_src_velocity_def py_print_def Let_def
      split: sum.split prod.split)

theorem interpolation_entry_points_return_None_witness:
  "fst (interpolate_src_velocity str_sample [Fin 0, Fin 10] [Fin 0, Fin 5] (PyInt 5) no_files_world)
     = Inr PyNone \<and>
   fst (interpolate_new_velocity str_sample ''track.csv'' (PyInt 5) no_files_world)
     = Inl FileNotFoundError"
proof -
  have a: "fst (interpolate_src_velocity str_sample [Fin 0, Fin 10] [Fin 0, Fin 5] (PyInt 5)
             no_files_world) \<noteq> Inl e" for e
    using interp1d_sample by (simp add: interpolate_src_velocity_def py_print_def Let_def)
  have b: "fst (interpolate_new_velocity str_sample ''track.csv'' (PyInt 5) no_files_world)
             = Inl FileNotFoundError"
    by (simp add: interpolate_new_velocity_def load_data_def no_files_world_def)
  show ?thesis
    using interpolation_entry_points_return_None
      [of str_sample "[Fin 0, Fin 10]" "[Fin 0, Fin 5]" "PyInt 5" no_files_world "''track.csv''"]
      a b
    by auto
qed

subsection \<open>The loader\<close>

text \<open>
  C8, as stated, fails: a file that parses to a table without the columns
  \<^verbatim>\<open>latitude\<close>, \<^verbatim>\<open>longitude\<close> and \<^verbatim>\<open>altitude\<close> is loaded without any error, and
  \<^verbatim>\<open>load_data\<close> returns the table that lacks them.
\<close>

theorem loader_returns_table_lacking_columns:
  "load_data time_only_world ''track.csv'' = Inr time_only_table \<and>
   time_only_table ''latitude'' = None \<and>
   time_only_table ''longitude'' = None \<and>
   time_only_table ''altitude'' = None"
  by (simp add: load_data_def time_only_world_def time_only_table_def)

lemma missing_column_raises:
  assumes "csv_files w filename = Inr df"
    and "df ''latitude'' = None \<or> df ''longitude'' = None \<or> df ''altitude'' = None \<or>
         df ''time'' = None"
  shows "\<exists>c. df c = None \<and>
           interpolate_new_velocity str filename time_request w = (Inl (AttributeError c), w)"
proof (cases "df ''latitude''")
  case None
  then have "interpolate_new_velocity str filename time_request w
             = (Inl (AttributeError ''latitude''), w)"
    using assms(1) by (simp add: interpolate_new_velocity_def load_data_def column_def)
  with None show ?thesis by blast
next
  case lat: (Some lat)
  show ?thesis
  proof (cases "df ''longitude''")
    case None
    then have "interpolate_new_velocity str filename time_request w
               = (Inl (AttributeError ''longitude''), w)"
      using assms(1) lat by (simp add: interpolate_new_velocity_def load_data_def column_def)
    with None show ?thesis by blast
  next
    case lon: (Some lon)
    show ?thesis
    proof (cases "df ''altitude''")
      case None
      then have "interpolate_new_velocity str filename time_request w
                 = (Inl (AttributeError ''altitude''), w)"
        using assms(1) lat lon
        by (simp add: interpolate_new_velocity_def load_data_def column_def)
      with None show ?thesis by blast
    next
      case alt: (Some alt)
      then have t: "df ''time'' = None"
        using assms(2) lat lon by simp
      then have "interpolate_new_velocity str filename time_request w
                 = (Inl (AttributeError ''time''), w)"
        using assms(1) lat lon alt
        by (simp add: interpolate_new_velocity_def load_data_def column_def split: prod.split)
      with t show ?thesis by blast
    qed
  qed
qed

text \<open>
  C8, amended. \<^verbatim>\<open>load_data\<close> returns or raises exactly what the reader of the file does:
  the error of a missing or unparsable file, and otherwise the table as read, with no check
  of its column names. A table that lacks one of the columns \<^verbatim>\<open>latitude\<close>,
  \<^verbatim>\<open>longitude\<close>, \<^verbatim>\<open>altitude\<close>, \<^verbatim>\<open>time\<close> fails later, in \<^verbatim>\<open>interpolate_new_velocity\<close>,
  with an \<open>AttributeError\<close> for a missing column and before anything is written.
\<close>

theorem loader_passes_table_unchecked:
  "load_data w filename = csv_files w filename \<and>
   (csv_files w filename = Inr df \<and>
    (df ''latitude'' = None \<or> df ''longitude'' = None \<or> df ''altitude'' = None \<or>
     df ''time'' = None) \<longrightarrow>
    (\<exists>c. df c = None \<and>
       interpolate_new_velocity str filename time_request w = (Inl (AttributeError c), w)))"
  using missing_column_raises [of w filename df str time_request]
  by (auto simp: load_data_def)

theorem loader_passes_table_unchecked_witness:
  "load_data time_only_world ''track.csv'' = csv_files time_only_world ''track.csv'' \<and>
   (\<exists>c. time_only_table c = None \<and>
      interpolate_new_velocity str_sample ''track.csv'' (PyInt 5) time_only_world
        = (Inl (AttributeError c), time_only_world))"
proof -
  have "csv_files time_only_world ''track.csv'' = Inr time_only_table"
    by (simp add: time_only_world_def)
  moreover have "time_only_table ''latitude'' = None"
    by (simp add: time_only_table_def)
  ultimately show ?thesis
    using loader_passes_table_unchecked
      [of time_only_world "''track.csv''" time_only_table str_sample "PyInt 5"]
    by blast
qed

end
